theory Spec2Isabelle
  imports Complex_Main
begin

section \<open>JavaScript values and strings\<close>

text \<open>
  The values that \<open>JSON.parse\<close> and property reads produce. Numbers are modelled as
  rationals (the IEEE special values \<open>NaN\<close> and \<open>Infinity\<close> are outside the model), objects
  as association lists read by first match.

  A string is the sequence of its UTF-16 code units, which is what \<open>length\<close>,
  \<open>substring\<close>, \<open>includes\<close>, \<open>===\<close> and \<open>trim\<close> work on. A code unit is a number below
  65536; the model does not use the bound. The literals of the program are ASCII, and
  \<open>js\<close> gives the code units of such a literal.
\<close>

type_synonym jsstr = "nat list"

definition js :: "string \<Rightarrow> jsstr" where
  "js s = map of_char s"

datatype jsval =
    JUndefined
  | JNull
  | JBool bool
  | JNum rat
  | JStr jsstr
  | JArr "jsval list"
  | JObj "(jsstr \<times> jsval) list"

text \<open>What the runtime decides, not the program: the text of converted values and of
  the messages of built-in errors.\<close>

record js_runtime =
  to_string :: "jsval \<Rightarrow> jsstr"
  type_error_message :: "jsval \<Rightarrow> jsstr \<Rightarrow> jsstr"
  syntax_error_message :: "jsstr \<Rightarrow> jsstr"

text \<open>\<open>!!v\<close>\<close>

fun truthy :: "jsval \<Rightarrow> bool" where
  "truthy JUndefined = False"
| "truthy JNull = False"
| "truthy (JBool b) = b"
| "truthy (JNum n) = (n \<noteq> 0)"
| "truthy (JStr s) = (s \<noteq> [])"
| "truthy (JArr xs) = True"
| "truthy (JObj kvs) = True"

text \<open>\<open>v.k\<close> for the property names read in this program (\<open>content\<close>, \<open>text\<close>, \<open>error\<close>,
  \<open>message\<close>, \<open>choices\<close>), none of which a primitive or an array owns. \<open>None\<close> is the
  TypeError of reading a property of \<open>undefined\<close> or \<open>null\<close>.\<close>

fun get_prop :: "jsval \<Rightarrow> jsstr \<Rightarrow> jsval option" where
  "get_prop JUndefined k = None"
| "get_prop JNull k = None"
| "get_prop (JObj kvs) k = Some (case map_of kvs k of None \<Rightarrow> JUndefined | Some v \<Rightarrow> v)"
| "get_prop v k = Some JUndefined"

text \<open>\<open>v[0]\<close>\<close>

fun index0 :: "jsval \<Rightarrow> jsval option" where
  "index0 JUndefined = None"
| "index0 JNull = None"
| "index0 (JArr []) = Some JUndefined"
| "index0 (JArr (x # xs)) = Some x"
| "index0 (JStr []) = Some JUndefined"
| "index0 (JStr (c # cs)) = Some (JStr [c])"
| "index0 (JObj kvs) = Some (case map_of kvs (js ''0'') of None \<Rightarrow> JUndefined | Some v \<Rightarrow> v)"
| "index0 v = Some JUndefined"

text \<open>\<open>String(v)\<close>, as \<open>new Error(v)\<close> applies it to its argument.\<close>

fun js_string :: "js_runtime \<Rightarrow> jsval \<Rightarrow> jsstr" where
  "js_string rt (JStr s) = s"
| "js_string rt v = to_string rt v"

text \<open>The code units that \<open>trim\<close> strips: the white space and the line terminators of
  ECMAScript, that is TAB, LF, VT, FF, CR, SP, NBSP, the further space separators of
  Unicode (U+1680, U+2000 to U+200A, U+202F, U+205F, U+3000), LS, PS and U+FEFF.\<close>

definition is_space :: "nat \<Rightarrow> bool" where
  "is_space c =
     (c \<in> set [0x09, 0x0A, 0x0B, 0x0C, 0x0D, 0x20, 0xA0, 0x1680,
                0x2000, 0x2001, 0x2002, 0x2003, 0x2004, 0x2005, 0x2006, 0x2007, 0x2008, 0x2009, 0x200A,
                0x2028, 0x2029, 0x202F, 0x205F, 0x3000, 0xFEFF])"

text \<open>\<open>s.trim()\<close>\<close>

definition trim :: "jsstr \<Rightarrow> jsstr" where
  "trim s = rev (dropWhile is_space (rev (dropWhile is_space s)))"

text \<open>\<open>s.startsWith(p)\<close> and \<open>s.includes(p)\<close>\<close>

definition starts_with :: "'a list \<Rightarrow> 'a list \<Rightarrow> bool" where
  "starts_with s p = (take (length p) s = p)"

fun includes_str :: "'a list \<Rightarrow> 'a list \<Rightarrow> bool" where
  "includes_str [] p = (p = [])"
| "includes_str (c # cs) p = (starts_with (c # cs) p \<or> includes_str cs p)"

text \<open>\<open>s.substring(0, n)\<close>\<close>

definition substring0 :: "jsstr \<Rightarrow> nat \<Rightarrow> jsstr" where
  "substring0 s n = take n s"

text \<open>The decimal digits of a status code, as a template literal prints it.\<close>

definition digit_char :: "nat \<Rightarrow> nat" where
  "digit_char d = 48 + d"

fun show_nat :: "nat \<Rightarrow> jsstr" where
  "show_nat n = (if n < 10 then [digit_char n] else show_nat (n div 10) @ [digit_char (n mod 10)])"

declare show_nat.simps [simp del]

text \<open>The outcome of \<open>await fetch(...)\<close> together with the reading of the body: either the
  promise rejects with an error of the given message, or there is a response with its
  status, its body text, and what \<open>JSON.parse\<close> makes of that text (\<open>None\<close> when it
  throws).\<close>

datatype fetch_result =
    Rejected jsstr
  | Response nat jsstr "jsval option"

text \<open>\<open>response.ok\<close>\<close>

definition ok :: "nat \<Rightarrow> bool" where
  "ok status = (200 \<le> status \<and> status \<le> 299)"

section \<open>The proxy normalizer (generic multi-turn handler)\<close>

text \<open>Source: \<open>src/unnamed/part_001\<close>, the functions \<open>handler\<close> (lines 2 to 100) and
  \<open>fetchClaudeResponse\<close> (lines 103 to 194). Logging and the CORS headers are left out.\<close>

text \<open>An entry of \<open>messages\<close> in the request body; a field is \<open>None\<close> when the entry
  lacks it.\<close>

record message =
  role :: "jsstr option"
  content :: "jsstr option"

record options =
  length_opt :: "rat option"
  creativity :: "rat option"
  system_opt :: "jsstr option"

record request_body =
  messages :: "message list option"
  body_options :: "options option"

record request =
  req_method :: jsstr
  body :: "request_body option"

record claude_message =
  cm_role :: jsstr
  cm_content :: jsstr

record anthropic_payload =
  model :: jsstr
  max_tokens :: rat
  payload_messages :: "claude_message list"
  temperature :: rat
  payload_system :: "jsstr option"

datatype response_body =
    End
  | ErrorBody jsstr "jsval option"
  | Choices jsstr jsstr
  | ResponseText jsval

type_synonym http_response = "nat \<times> response_body"

text \<open>Truthiness of an optional string field: present and not empty.\<close>

fun present :: "jsstr option \<Rightarrow> bool" where
  "present None = False"
| "present (Some s) = (s \<noteq> [])"

definition claudeMessages :: "message list \<Rightarrow> claude_message list" where
  "claudeMessages msgs =
     filter (\<lambda>m. length (cm_content m) > 0)
       (map (\<lambda>msg. \<lparr>cm_role = (if role msg = Some (js ''assistant'') then (js ''assistant'') else (js ''user'')),
                    cm_content = (case content msg of None \<Rightarrow> [] | Some c \<Rightarrow> trim c)\<rparr>)
          (filter (\<lambda>msg. present (role msg) \<and> present (content msg)) msgs))"

text \<open>\<open>x || d\<close> on an optional number: the default replaces an absent value and zero.\<close>

fun or_default :: "rat option \<Rightarrow> rat \<Rightarrow> rat" where
  "or_default None d = d"
| "or_default (Some x) d = (if x \<noteq> 0 then x else d)"

definition anthropicPayload :: "claude_message list \<Rightarrow> options \<Rightarrow> anthropic_payload" where
  "anthropicPayload cms opts =
     \<lparr>model = js ''claude-sonnet-4-20250514'',
      max_tokens = min (max (or_default (length_opt opts) 1024) 1) 4096,
      payload_messages = cms,
      temperature = (case creativity opts of
                       None \<Rightarrow> 7 / 10
                     | Some c \<Rightarrow> if c \<noteq> 0 then min (c / 100) 1 else 7 / 10),
      payload_system = (if present (system_opt opts) then system_opt opts else None)\<rparr>"

text \<open>The upstream endpoint: what \<open>fetch\<close> answers to the API key and payload it is sent.\<close>

type_synonym upstream = "jsstr \<Rightarrow> anthropic_payload \<Rightarrow> fetch_result"

text \<open>\<open>errorData.error?.message || errorData.message || errorMessage\<close>; \<open>None\<close> is the
  TypeError of reading \<open>error\<close> from \<open>null\<close>, which the inner \<open>catch\<close> receives.\<close>

definition error_message_of :: "js_runtime \<Rightarrow> jsval \<Rightarrow> jsstr \<Rightarrow> jsstr option" where
  "error_message_of rt errorData errorMessage =
     (case get_prop errorData (js ''error'') of
        None \<Rightarrow> None
      | Some e \<Rightarrow>
          (let m1 = (case get_prop e (js ''message'') of None \<Rightarrow> JUndefined | Some m \<Rightarrow> m) in
           if truthy m1 then Some (js_string rt m1)
           else (case get_prop errorData (js ''message'') of
                   None \<Rightarrow> None
                 | Some m2 \<Rightarrow> if truthy m2 then Some (js_string rt m2) else Some errorMessage)))"

text \<open>The message of the error thrown for an upstream answer that is not \<open>ok\<close>.\<close>

definition upstream_error :: "js_runtime \<Rightarrow> nat \<Rightarrow> jsstr \<Rightarrow> jsval option \<Rightarrow> jsstr" where
  "upstream_error rt status responseText parsed =
     (let errorMessage = js ''Claude API Error: '' @ show_nat status;
          fallback = errorMessage @ (js '' - '') @ substring0 responseText 200 in
      case parsed of
        None \<Rightarrow> fallback
      | Some errorData \<Rightarrow>
          (case error_message_of rt errorData errorMessage of
             None \<Rightarrow> fallback
           | Some m \<Rightarrow> m))"

text \<open>The content extraction from the parsed body of an \<open>ok\<close> answer; \<open>Inl\<close> carries the
  message of the error thrown.\<close>

definition extract_content :: "js_runtime \<Rightarrow> jsval \<Rightarrow> jsstr + jsstr" where
  "extract_content rt data =
     (case get_prop data (js ''content'') of
        None \<Rightarrow> Inl (type_error_message rt data (js ''content''))
      | Some (JArr []) \<Rightarrow> Inl (js ''Empty response from Claude API'')
      | Some (JArr (firstContent # rest)) \<Rightarrow>
          (if \<not> truthy firstContent then Inl (js ''Invalid content format from Claude API'')
           else (case get_prop firstContent (js ''text'') of
                   Some (JStr t) \<Rightarrow>
                     (let responseContent = trim t in
                      if responseContent = [] then Inl (js ''Empty response content from Claude API'')
                      else Inr responseContent)
                 | _ \<Rightarrow> Inl (js ''Invalid content format from Claude API'')))
      | Some _ \<Rightarrow> Inl (js ''Invalid response format from Claude API - no content array''))"

text \<open>\<open>fetchClaudeResponse\<close>: the result (\<open>Inl\<close> the message of the error thrown, \<open>Inr\<close> the
  text returned) and the payloads sent upstream, in order.\<close>

definition fetchClaudeResponse ::
  "js_runtime \<Rightarrow> upstream \<Rightarrow> message list \<Rightarrow> options \<Rightarrow> jsstr
     \<Rightarrow> (jsstr + jsstr) \<times> anthropic_payload list" where
  "fetchClaudeResponse rt up msgs opts apiKey =
     (let cms = claudeMessages msgs in
      case cms of
        [] \<Rightarrow> (Inl (js ''No valid messages to send''), [])
      | first # rest \<Rightarrow>
          if cm_role first \<noteq> js ''user'' then (Inl (js ''Conversation must start with a user message''), [])
          else
            (let payload = anthropicPayload cms opts in
             case up apiKey payload of
               Rejected m \<Rightarrow> (Inl m, [payload])
             | Response status responseText parsed \<Rightarrow>
                 if \<not> ok status then (Inl (upstream_error rt status responseText parsed), [payload])
                 else (case parsed of
                         None \<Rightarrow> (Inl (js ''Invalid JSON response from Claude API''), [payload])
                       | Some data \<Rightarrow> (extract_content rt data, [payload]))))"

text \<open>The \<open>catch\<close> block of the handler, applied to the message of the error caught.\<close>

definition on_error :: "jsstr \<Rightarrow> http_response" where
  "on_error m =
     (if includes_str m (js ''401'') then
        (500, ErrorBody (js ''Authentication failed. Please check your ANTHROPIC_API_KEY.'') (Some (JStr m)))
      else if includes_str m (js ''429'') then
        (500, ErrorBody (js ''Rate limit exceeded. Please try again later.'') (Some (JStr m)))
      else if includes_str m (js ''400'') then
        (500, ErrorBody (js ''Invalid request format.'') (Some (JStr m)))
      else
        (500, ErrorBody (js ''Server error'') (Some (JStr m))))"

definition is_ping :: "message list \<Rightarrow> bool" where
  "is_ping msgs = (case msgs of [m] \<Rightarrow> content m = Some (js ''ping'') | _ \<Rightarrow> False)"

definition pong :: http_response where
  "pong = (200, Choices (js ''pong'') (js ''assistant''))"

text \<open>The handler: the response and the payloads sent upstream. \<open>env_key\<close> is
  \<open>process.env.ANTHROPIC_API_KEY\<close>.\<close>

definition handler ::
  "js_runtime \<Rightarrow> jsstr option \<Rightarrow> upstream \<Rightarrow> request \<Rightarrow> http_response \<times> anthropic_payload list" where
  "handler rt env_key up req =
     (if req_method req = js ''OPTIONS'' then ((200, End), [])
      else if req_method req \<noteq> js ''POST'' then ((405, ErrorBody (js ''Method not allowed'') None), [])
      else
        (case body req of
           None \<Rightarrow> (on_error (type_error_message rt JUndefined (js ''messages'')), [])
         | Some b \<Rightarrow>
             (case messages b of
                None \<Rightarrow> ((400, ErrorBody (js ''Invalid messages format'') None), [])
              | Some msgs \<Rightarrow>
                  (case body_options b of
                     None \<Rightarrow> ((400, ErrorBody (js ''Missing options'') None), [])
                   | Some opts \<Rightarrow>
                       if \<not> present env_key then
                         ((500, ErrorBody (js ''API key not configured. Please set ANTHROPIC_API_KEY in your Vercel environment variables.'') None), [])
                       else if is_ping msgs then (pong, [])
                       else
                         (case fetchClaudeResponse rt up msgs opts (case env_key of None \<Rightarrow> [] | Some k \<Rightarrow> k) of
                            (Inl m, sent) \<Rightarrow> (on_error m, sent)
                          | (Inr responseText, sent) \<Rightarrow>
                              if responseText = [] \<or> trim responseText = [] then
                                ((500, ErrorBody (js ''Empty response from AI'') None), sent)
                              else ((200, Choices responseText (js ''assistant'')), sent))))))"

section \<open>The simplified single-message forwarder (\<open>api/chat.js\<close>)\<close>

text \<open>Source: \<open>src/api/chat.js\<close>, the function \<open>handler\<close>. The request body is the value
  of \<open>req.body\<close>, \<open>JUndefined\<close> when there is none.\<close>

record chat_request =
  chat_method :: jsstr
  chat_body :: jsval

text \<open>What a run of the forwarder ends in: a response, or an exception that leaves the
  handler (the message is the exception's).\<close>

datatype outcome =
    Responded nat response_body
  | Unhandled jsstr

text \<open>\<open>data.content[0].text\<close>; \<open>Inl\<close> is the message of the TypeError.\<close>

definition first_text :: "js_runtime \<Rightarrow> jsval \<Rightarrow> jsstr + jsval" where
  "first_text rt data =
     (case get_prop data (js ''content'') of
        None \<Rightarrow> Inl (type_error_message rt data (js ''content''))
      | Some c \<Rightarrow>
          (case index0 c of
             None \<Rightarrow> Inl (type_error_message rt c (js ''0''))
           | Some e \<Rightarrow>
               (case get_prop e (js ''text'') of
                  None \<Rightarrow> Inl (type_error_message rt e (js ''text''))
                | Some t \<Rightarrow> Inr t)))"

text \<open>The \<open>catch\<close> block of the forwarder.\<close>

definition chat_failed :: "jsstr \<Rightarrow> outcome" where
  "chat_failed m = Responded 500 (ErrorBody (js ''Failed to process request'') (Some (JStr m)))"

text \<open>The forwarder: its outcome and the messages sent upstream. \<open>env_key\<close> is
  \<open>process.env.CLAUDE_API_KEY\<close>; the upstream answers to the key and the message.\<close>

definition chat_handler ::
  "js_runtime \<Rightarrow> jsstr option \<Rightarrow> (jsstr \<Rightarrow> jsval \<Rightarrow> fetch_result) \<Rightarrow> chat_request
     \<Rightarrow> outcome \<times> jsval list" where
  "chat_handler rt env_key up req =
     (if chat_method req = js ''OPTIONS'' then (Responded 200 End, [])
      else if chat_method req \<noteq> js ''POST'' then (Responded 405 (ErrorBody (js ''Method not allowed'') None), [])
      else
        (case get_prop (chat_body req) (js ''message'') of
           None \<Rightarrow> (Unhandled (type_error_message rt (chat_body req) (js ''message'')), [])
         | Some msg \<Rightarrow>
             if \<not> truthy msg then (Responded 400 (ErrorBody (js ''Message is required'') None), [])
             else if \<not> present env_key then (Responded 500 (ErrorBody (js ''API key not configured'') None), [])
             else
               (case up (case env_key of None \<Rightarrow> [] | Some k \<Rightarrow> k) msg of
                  Rejected m \<Rightarrow> (chat_failed m, [msg])
                | Response status responseText parsed \<Rightarrow>
                    (case parsed of
                       None \<Rightarrow> (chat_failed (syntax_error_message rt responseText), [msg])
                     | Some data \<Rightarrow>
                         if \<not> ok status then
                           (case get_prop data (js ''error'') of
                              None \<Rightarrow> (chat_failed (type_error_message rt data (js ''error'')), [msg])
                            | Some e \<Rightarrow>
                                (let m1 = (case get_prop e (js ''message'') of None \<Rightarrow> JUndefined | Some m \<Rightarrow> m);
                                     details = (if truthy m1 then m1 else JStr (js ''Unknown error''))
                                 in (Responded status (ErrorBody (js ''Failed to process request'') (Some details)), [msg])))
                         else
                           (case first_text rt data of
                              Inl m \<Rightarrow> (chat_failed m, [msg])
                            | Inr responseText \<Rightarrow> (Responded 200 (ResponseText responseText), [msg]))))))"

section \<open>The client send operation\<close>

text \<open>Source: \<open>src/unnamed/part_000\<close>, the function \<open>sendMessage\<close> (lines 13 to 122).\<close>

record turn =
  turn_type :: jsstr
  turn_content :: jsval

text \<open>The session state that \<open>sendMessage\<close> reads and writes: the text in the input box,
  \<open>state.chat\<close>, \<open>state.quota\<close> and \<open>state.api.status\<close>.\<close>

record client_state =
  inputValue :: jsstr
  chat_messages :: "turn list"
  pendingMessages :: "jsstr list"
  hasMessages :: bool
  quota_used :: int
  quota_messagesLeft :: int
  api_status :: jsstr

record client_request =
  req_messages :: "(jsstr \<times> jsval) list"
  req_options :: options

text \<open>What a run does besides changing the session state, in order: the calls of the
  user-interface helpers and the request issued to the proxy. Writes to the style and the
  \<open>disabled\<close> flag of page elements are left out.\<close>

datatype effect =
    ShowToast jsstr jsstr
  | AddMessage jsstr jsval
  | ShowTypingIndicator
  | RemoveTypingIndicator
  | ExtractCodeFromResponse jsval
  | UpdateQuotaBar
  | AddToChatHistory jsstr
  | Fetch client_request

text \<open>Modelled from the spec: \<open>addMessage\<close>, which is not in the source files, appends the
  turn to the conversation history \<open>state.chat.messages\<close> (section 4.2: the client
  "appends the new user turn to local conversation history", "appends the returned
  assistant text as a new turn"). The other helpers called by \<open>sendMessage\<close>
  (\<open>showToast\<close>, \<open>showTypingIndicator\<close>, \<open>removeTypingIndicator\<close>,
  \<open>extractCodeFromResponse\<close>, \<open>updateQuotaBar\<close>, \<open>addToChatHistory\<close>) are likewise absent;
  they are user-interface collaborators that leave the session state alone and do not
  throw, and appear in the model as effects only.\<close>

definition addMessage :: "jsstr \<Rightarrow> jsval \<Rightarrow> client_state \<Rightarrow> client_state" where
  "addMessage t c s = s\<lparr>chat_messages := chat_messages s @ [\<lparr>turn_type = t, turn_content = c\<rparr>]\<rparr>"

text \<open>The \<open>try\<close> block up to \<open>aiResponse\<close>: \<open>Inl\<close> is the message of the error thrown.\<close>

definition ai_response :: "js_runtime \<Rightarrow> fetch_result \<Rightarrow> jsstr + jsval" where
  "ai_response rt r =
     (case r of
        Rejected m \<Rightarrow> Inl m
      | Response status responseText parsed \<Rightarrow>
          if \<not> ok status then Inl ((js ''API request failed with status '') @ show_nat status)
          else
            (case parsed of
               None \<Rightarrow> Inl (syntax_error_message rt responseText)
             | Some data \<Rightarrow>
                 (case get_prop data (js ''choices'') of
                    None \<Rightarrow> Inl (type_error_message rt data (js ''choices''))
                  | Some cs \<Rightarrow>
                      (case index0 cs of
                         None \<Rightarrow> Inl (type_error_message rt cs (js ''0''))
                       | Some c \<Rightarrow>
                           (case get_prop c (js ''message'') of
                              None \<Rightarrow> Inl (type_error_message rt c (js ''message''))
                            | Some m \<Rightarrow>
                                (case get_prop m (js ''content'') of
                                   None \<Rightarrow> Inl (type_error_message rt m (js ''content''))
                                 | Some aiResponse \<Rightarrow> Inr aiResponse))))))"

definition apology :: jsstr where
  "apology = js ''I apologize, but I encountered an error while processing your request. Please try again.''"

definition default_options :: options where
  "default_options =
     \<lparr>length_opt = Some 1024, creativity = Some 70,
      system_opt = Some (js ''You are a helpful AI assistant. Be concise and helpful.'')\<rparr>"

text \<open>The request that a send of \<open>message\<close> issues from the state reached at the
  \<open>fetch\<close>.\<close>

definition build_request :: "client_state \<Rightarrow> jsstr \<Rightarrow> client_request" where
  "build_request s message =
     \<lparr>req_messages = map (\<lambda>msg. (turn_type msg, turn_content msg)) (chat_messages s) @ [((js ''user''), JStr message)],
      req_options = default_options\<rparr>"

text \<open>The state in which the request is built: the input box cleared, the user turn
  added, the message pending.\<close>

definition begin_send :: "client_state \<Rightarrow> jsstr \<Rightarrow> client_state" where
  "begin_send s message =
     (let s1 = addMessage (js ''user'') (JStr message) (s\<lparr>inputValue := []\<rparr>);
          s2 = s1\<lparr>hasMessages := True\<rparr>
      in s2\<lparr>pendingMessages := pendingMessages s2 @ [message]\<rparr>)"

text \<open>\<open>sendMessage\<close>: the state it leaves and its effects. \<open>proxy\<close> is what the endpoint
  answers to a request.\<close>

definition sendMessage ::
  "js_runtime \<Rightarrow> (client_request \<Rightarrow> fetch_result) \<Rightarrow> client_state \<Rightarrow> client_state \<times> effect list" where
  "sendMessage rt proxy s =
     (let message = trim (inputValue s) in
      if message = [] \<or> length (pendingMessages s) > 0 then (s, [])
      else if quota_messagesLeft s \<le> 0 then
        (s, [ShowToast (js ''Message quota exceeded. Please upgrade your plan.'') (js ''error'')])
      else if api_status s \<noteq> js ''online'' then
        (s, [ShowToast (js ''AI is currently offline. Please try again later.'') (js ''error'')])
      else
        (let s3 = begin_send s message;
             request = build_request s3 message;
             before = [AddMessage (js ''user'') (JStr message), ShowTypingIndicator, Fetch request]
         in case ai_response rt (proxy request) of
              Inr aiResponse \<Rightarrow>
                (let s4 = addMessage (js ''ai'') aiResponse s3;
                     s5 = s4\<lparr>quota_used := quota_used s4 + 1\<rparr>;
                     s6 = s5\<lparr>quota_messagesLeft := quota_messagesLeft s5 - 1\<rparr>;
                     s7 = s6\<lparr>pendingMessages := filter (\<lambda>msg. msg \<noteq> message) (pendingMessages s6)\<rparr>
                 in (s7, before @ [RemoveTypingIndicator, AddMessage (js ''ai'') aiResponse,
                                   ExtractCodeFromResponse aiResponse, UpdateQuotaBar,
                                   AddToChatHistory message,
                                   ShowToast (js ''Response generated successfully!'') (js ''success'')]))
            | Inl m \<Rightarrow>
                (let s4 = addMessage (js ''ai'') (JStr apology) s3;
                     s5 = s4\<lparr>pendingMessages := filter (\<lambda>msg. msg \<noteq> message) (pendingMessages s4)\<rparr>
                 in (s5, before @ [RemoveTypingIndicator, AddMessage (js ''ai'') (JStr apology),
                                   ShowToast ((js ''Failed to generate response: '') @ m) (js ''error'')]))))"

text \<open>The requests to the proxy among the effects of a run.\<close>

fun requests :: "effect list \<Rightarrow> client_request list" where
  "requests [] = []"
| "requests (Fetch r # es) = r # requests es"
| "requests (e # es) = requests es"

section \<open>Sample inputs\<close>

text \<open>A runtime, upstream answers and requests on which the theorems below are
  evaluated.\<close>

definition sample_runtime :: js_runtime where
  "sample_runtime =
     \<lparr>to_string = (\<lambda>v. (js ''[object Object]'')),
      type_error_message = (\<lambda>v k. (js ''Cannot read properties of undefined (reading '') @ k @ (js '')'')),
      syntax_error_message = (\<lambda>t. (js ''Unexpected end of JSON input''))\<rparr>"

definition no_options :: options where
  "no_options = \<lparr>length_opt = None, creativity = None, system_opt = None\<rparr>"

definition probe_options :: options where
  "probe_options = \<lparr>length_opt = Some 10, creativity = None, system_opt = None\<rparr>"

definition user_ping :: message where
  "user_ping = \<lparr>role = Some (js ''user''), content = Some (js ''ping'')\<rparr>"

definition assistant_ping :: message where
  "assistant_ping = \<lparr>role = Some (js ''assistant''), content = Some (js ''ping'')\<rparr>"

definition post :: "message list \<Rightarrow> options option \<Rightarrow> request" where
  "post msgs opts = \<lparr>req_method = js ''POST'', body = Some \<lparr>messages = Some msgs, body_options = opts\<rparr>\<rparr>"

definition empty_content_upstream :: upstream where
  "empty_content_upstream k p = Response 200 (js ''{\"content\":[]}'') (Some (JObj [((js ''content''), JArr [])]))"

definition unreachable_upstream :: upstream where
  "unreachable_upstream k p = Rejected (js ''fetch failed'')"

definition rate_limited :: "jsstr \<Rightarrow> jsval \<Rightarrow> fetch_result" where
  "rate_limited k m =
     Response 429 (js ''{\"error\":{\"message\":\"rate limited\"}}'')
       (Some (JObj [((js ''error''), JObj [((js ''message''), JStr (js ''rate limited''))])]))"

definition hello_message :: message where
  "hello_message = \<lparr>role = Some (js ''user''), content = Some (js ''hello'')\<rparr>"

text \<open>Texts with white space beyond ASCII: a no-break space alone, and \<open>hi\<close> between
  a no-break space, a space and a line separator.\<close>

definition nbsp :: jsstr where
  "nbsp = [0xA0]"

definition padded_hi :: jsstr where
  "padded_hi = [0xA0, 0x20] @ js ''hi'' @ [0x2028]"

definition blank_message :: message where
  "blank_message = \<lparr>role = Some (js ''user''), content = Some nbsp\<rparr>"

definition blank_assistant_message :: message where
  "blank_assistant_message = \<lparr>role = Some (js ''assistant''), content = Some nbsp\<rparr>"

definition fresh_state :: client_state where
  "fresh_state =
     \<lparr>inputValue = js ''hi'', chat_messages = [], pendingMessages = [], hasMessages = False,
      quota_used = 0, quota_messagesLeft = 5, api_status = js ''online''\<rparr>"

definition unavailable_proxy :: "client_request \<Rightarrow> fetch_result" where
  "unavailable_proxy r = Response 503 (js ''Service Unavailable'') None"

definition answering_proxy :: "client_request \<Rightarrow> fetch_result" where
  "answering_proxy r =
     Response 200 (js ''{\"choices\":[{\"message\":{\"content\":\"hello\",\"role\":\"assistant\"}}]}'')
       (Some (JObj [((js ''choices''),
          JArr [JObj [((js ''message''), JObj [((js ''content''), JStr (js ''hello'')), ((js ''role''), JStr (js ''assistant''))])]])]))"

section \<open>Auxiliary facts\<close>

text \<open>Literals: \<open>js\<close> is injective and commutes with the list operations, so tests on
  ASCII literals are tests on their characters.\<close>

lemma js_eq_iff [simp]: "js s = js t \<longleftrightarrow> s = t"
proof -
  have "inj (of_char :: char \<Rightarrow> nat)"
    by (rule injI) simp
  then show ?thesis
    by (simp add: js_def inj_map_eq_map)
qed

lemma js_Nil [simp]: "js [] = []" "js s = [] \<longleftrightarrow> s = []" "[] = js s \<longleftrightarrow> s = []"
  by (auto simp add: js_def)

lemma js_Cons: "js (c # s) = of_char c # js s"
  by (simp add: js_def)

lemma js_append [simp]: "js s @ js t = js (s @ t)"
  by (simp add: js_def)

lemma length_js [simp]: "length (js s) = length s"
  by (simp add: js_def)

lemma take_js: "take n (js s) = js (take n s)"
  by (simp add: js_def take_map)

lemma starts_with_js [simp]: "starts_with (js s) (js p) = starts_with s p"
  by (simp add: starts_with_def take_js)

lemma includes_js [simp]: "includes_str (js s) (js p) = includes_str s p"
proof (induction s)
  case Nil
  show ?case by simp
next
  case (Cons c s)
  have "starts_with (of_char c # js s) (js p) = starts_with (c # s) p"
    using starts_with_js [of "c # s" p] by (simp add: js_Cons)
  with Cons show ?case by (simp add: js_Cons)
qed

text \<open>The code units of an ASCII letter or digit are not white space, so \<open>trim\<close> leaves
  the words of the sample inputs as they are.\<close>

lemma trim_blank [simp]: "trim nbsp = []" "trim padded_hi = js ''hi''"
  by (simp_all add: trim_def is_space_def js_def nbsp_def padded_hi_def)

lemma nbsp_facts [simp]: "nbsp \<noteq> []" "nbsp \<noteq> js ''ping''"
  by (simp_all add: nbsp_def js_def)

lemma trim_words [simp]:
  "trim (js ''ping'') = js ''ping''" "trim (js ''hello'') = js ''hello''" "trim (js ''hi'') = js ''hi''"
  by (simp_all add: trim_def is_space_def js_def)

lemma on_error_status: "fst (on_error m) = 500"
  by (simp add: on_error_def)

lemma on_error_no_messages:
  "on_error (js ''No valid messages to send'') =
     (500, ErrorBody (js ''Server error'') (Some (JStr (js ''No valid messages to send''))))"
  by (simp add: on_error_def starts_with_def)

lemma on_error_user_first:
  "on_error (js ''Conversation must start with a user message'') =
     (500, ErrorBody (js ''Server error'') (Some (JStr (js ''Conversation must start with a user message''))))"
  by (simp add: on_error_def starts_with_def)

lemma on_error_empty:
  "on_error (js ''Empty response from Claude API'') =
     (500, ErrorBody (js ''Server error'') (Some (JStr (js ''Empty response from Claude API''))))"
  by (simp add: on_error_def starts_with_def)

text \<open>Past the method, body, options and key checks the handler is the ping test followed
  by \<open>fetchClaudeResponse\<close>.\<close>

lemma handler_gated:
  assumes "req_method req = js ''POST''" and "body req = Some b" and "messages b = Some msgs"
    and "body_options b = Some opts" and "env_key = Some k" and "k \<noteq> []"
  shows "handler rt env_key up req =
           (if is_ping msgs then (pong, [])
            else (case fetchClaudeResponse rt up msgs opts k of
                    (Inl m, sent) \<Rightarrow> (on_error m, sent)
                  | (Inr responseText, sent) \<Rightarrow>
                      if responseText = [] \<or> trim responseText = [] then
                        ((500, ErrorBody (js ''Empty response from AI'') None), sent)
                      else ((200, Choices responseText (js ''assistant'')), sent)))"
  using assms by (simp add: handler_def)

text \<open>Only \<open>fetchClaudeResponse\<close> sends anything, and only under the key of the
  environment.\<close>

lemma handler_sent:
  assumes "p \<in> set (snd (handler rt env_key up req))"
  obtains b msgs opts k where "req_method req = js ''POST''" and "body req = Some b"
    and "messages b = Some msgs" and "body_options b = Some opts"
    and "env_key = Some k" and "k \<noteq> []" and "\<not> is_ping msgs"
    and "p \<in> set (snd (fetchClaudeResponse rt up msgs opts k))"
proof -
  from assms have post: "req_method req = js ''POST''"
    by (auto simp add: handler_def split: if_splits)
  from assms post obtain b where b: "body req = Some b"
    by (cases "body req") (auto simp add: handler_def)
  from assms post b obtain msgs where msgs: "messages b = Some msgs"
    by (cases "messages b") (auto simp add: handler_def)
  from assms post b msgs obtain opts where opts: "body_options b = Some opts"
    by (cases "body_options b") (auto simp add: handler_def)
  from assms post b msgs opts obtain k where k: "env_key = Some k" "k \<noteq> []"
    by (cases env_key) (auto simp add: handler_def split: if_splits)
  from assms have ping: "\<not> is_ping msgs"
    by (auto simp add: handler_gated [OF post b msgs opts k])
  from assms ping have "p \<in> set (snd (fetchClaudeResponse rt up msgs opts k))"
    by (auto simp add: handler_gated [OF post b msgs opts k] split: prod.splits sum.splits if_splits)
  with post b msgs opts k ping show thesis by (rule that)
qed

lemma fetch_invalid:
  "claudeMessages msgs = [] \<Longrightarrow>
     fetchClaudeResponse rt up msgs opts k = (Inl (js ''No valid messages to send''), [])"
  "claudeMessages msgs = first # rest \<Longrightarrow> cm_role first \<noteq> js ''user'' \<Longrightarrow>
     fetchClaudeResponse rt up msgs opts k = (Inl (js ''Conversation must start with a user message''), [])"
  by (simp_all add: fetchClaudeResponse_def)

lemma fetch_sent_payload:
  assumes "p \<in> set (snd (fetchClaudeResponse rt up msgs opts k))"
  shows "p = anthropicPayload (claudeMessages msgs) opts"
    and "fetchClaudeResponse rt up msgs opts k =
           (case up k p of
              Rejected m \<Rightarrow> (Inl m, [p])
            | Response status responseText parsed \<Rightarrow>
                if \<not> ok status then (Inl (upstream_error rt status responseText parsed), [p])
                else (case parsed of
                        None \<Rightarrow> (Inl (js ''Invalid JSON response from Claude API''), [p])
                      | Some data \<Rightarrow> (extract_content rt data, [p])))"
  using assms
  by (auto simp add: fetchClaudeResponse_def Let_def
      split: list.splits if_splits fetch_result.splits option.splits)

lemma extract_empty:
  "get_prop data (js ''content'') = Some (JArr []) \<Longrightarrow>
     extract_content rt data = Inl (js ''Empty response from Claude API'')"
  by (simp add: extract_content_def)

section \<open>Generation options in the upstream payload\<close>

text \<open>
  Claim C1, as stated, fails: a creativity of -10 is sent upstream as temperature -0.1,
  not 0. The conversion has an upper clamp only.
\<close>

theorem negative_creativity_counterexample:
  "temperature (anthropicPayload [] \<lparr>length_opt = None, creativity = Some (- 10), system_opt = None\<rparr>)
     = - (1 / 10)
   \<and> temperature (anthropicPayload [] \<lparr>length_opt = None, creativity = Some (- 10), system_opt = None\<rparr>)
     \<noteq> 0"
  by (simp add: anthropicPayload_def)

text \<open>
  Claim C1, amended: for every payload built, an absent creativity gives temperature 0.7,
  and a creativity \<open>c\<close> other than zero gives \<open>c / 100\<close> clamped to at most 1 and not
  clamped from below (so the temperature never exceeds 1, is positive for positive \<open>c\<close>
  and negative for negative \<open>c\<close>); creativity -10, 50, 100 and 250 give -0.1, 0.5, 1
  and 1.
\<close>

theorem temperature_of_creativity:
  "(creativity opts = None \<longrightarrow> temperature (anthropicPayload cms opts) = 7 / 10)
   \<and> (\<forall>c. creativity opts = Some c \<and> c \<noteq> 0 \<longrightarrow>
          temperature (anthropicPayload cms opts) = min (c / 100) 1
          \<and> temperature (anthropicPayload cms opts) \<le> 1
          \<and> (0 < c \<longrightarrow> 0 < temperature (anthropicPayload cms opts))
          \<and> (c < 0 \<longrightarrow> temperature (anthropicPayload cms opts) < 0))
   \<and> temperature (anthropicPayload cms (opts\<lparr>creativity := Some (- 10)\<rparr>)) = - (1 / 10)
   \<and> temperature (anthropicPayload cms (opts\<lparr>creativity := Some 50\<rparr>)) = 1 / 2
   \<and> temperature (anthropicPayload cms (opts\<lparr>creativity := Some 100\<rparr>)) = 1
   \<and> temperature (anthropicPayload cms (opts\<lparr>creativity := Some 250\<rparr>)) = 1"
  by (auto simp add: anthropicPayload_def min_def)

theorem temperature_of_creativity_witness:
  "creativity default_options = Some 70 \<and> (70::rat) \<noteq> 0 \<and> (0::rat) < 70
   \<and> temperature (anthropicPayload [] default_options) = 7 / 10
   \<and> 0 < temperature (anthropicPayload [] default_options)
   \<and> creativity no_options = None
   \<and> temperature (anthropicPayload [] no_options) = 7 / 10"
  using temperature_of_creativity [of default_options "[]"]
    temperature_of_creativity [of no_options "[]"]
  by (simp add: default_options_def no_options_def)

text \<open>
  Claim C2, as stated, fails: a requested length of 0 is sent upstream as \<open>max_tokens\<close>
  1024, not 1, because \<open>options.length || 1024\<close> puts the default in the place of a zero
  before the clamp is applied.
\<close>

theorem zero_length_counterexample:
  "max_tokens (anthropicPayload [] \<lparr>length_opt = Some 0, creativity = None, system_opt = None\<rparr>) = 1024
   \<and> max_tokens (anthropicPayload [] \<lparr>length_opt = Some 0, creativity = None, system_opt = None\<rparr>) \<noteq> 1"
  by (simp add: anthropicPayload_def)

text \<open>
  Claim C2, amended: the \<open>max_tokens\<close> sent upstream always lies in the interval from 1
  to 4096. A requested length other than zero is clamped into that interval (5000, 1024
  and -5 give 4096, 1024 and 1); a requested length of zero, like an absent one, is
  replaced by the default 1024.
\<close>

theorem max_tokens_of_length:
  "1 \<le> max_tokens (anthropicPayload cms opts)
   \<and> max_tokens (anthropicPayload cms opts) \<le> 4096
   \<and> (\<forall>n. length_opt opts = Some n \<and> n \<noteq> 0 \<longrightarrow>
          max_tokens (anthropicPayload cms opts) = min (max n 1) 4096)
   \<and> (length_opt opts = None \<or> length_opt opts = Some 0 \<longrightarrow>
          max_tokens (anthropicPayload cms opts) = 1024)
   \<and> max_tokens (anthropicPayload cms (opts\<lparr>length_opt := Some 5000\<rparr>)) = 4096
   \<and> max_tokens (anthropicPayload cms (opts\<lparr>length_opt := Some 1024\<rparr>)) = 1024
   \<and> max_tokens (anthropicPayload cms (opts\<lparr>length_opt := Some (- 5)\<rparr>)) = 1"
  by (auto simp add: anthropicPayload_def min_def max_def)

theorem max_tokens_of_length_witness:
  "length_opt probe_options = Some 10 \<and> (10::rat) \<noteq> 0
   \<and> max_tokens (anthropicPayload [] probe_options) = 10
   \<and> length_opt no_options = None
   \<and> max_tokens (anthropicPayload [] no_options) = 1024"
  using max_tokens_of_length [of "[]" probe_options] max_tokens_of_length [of "[]" no_options]
  by (simp add: probe_options_def no_options_def)

text \<open>The payload built this way is the one that goes upstream: whatever the handler
  sends is \<open>anthropicPayload\<close> of the filtered messages and the options of the request.\<close>

lemma handler_sends_payload:
  assumes "p \<in> set (snd (handler rt env_key up req))"
  shows "\<exists>b msgs opts. body req = Some b \<and> messages b = Some msgs \<and> body_options b = Some opts
           \<and> p = anthropicPayload (claudeMessages msgs) opts"
  using assms by (elim handler_sent) (auto dest: fetch_sent_payload(1))

section \<open>The ping probe\<close>

lemma handler_ping:
  assumes "req_method req = js ''POST''" and "body req = Some b" and "messages b = Some msgs"
    and "body_options b = Some opts" and "env_key = Some k" and "k \<noteq> []" and "is_ping msgs"
  shows "handler rt env_key up req = ((200, Choices (js ''pong'') (js ''assistant'')), [])"
  using assms by (simp add: handler_gated pong_def)

lemma ping_never_sent:
  assumes "body req = Some b" and "messages b = Some msgs" and "is_ping msgs"
  shows "snd (handler rt env_key up req) = []"
proof (cases "snd (handler rt env_key up req)")
  case Nil
  then show ?thesis .
next
  case (Cons p ps)
  then have "p \<in> set (snd (handler rt env_key up req))" by simp
  then show ?thesis using assms by (elim handler_sent) simp
qed

text \<open>
  Claim C3, as stated, fails: the key check comes before the ping test, so where no API
  key is configured the probe \<open>{role: user, content: ping}\<close> is answered with status 500.
\<close>

theorem ping_without_key_counterexample:
  "handler sample_runtime None empty_content_upstream (post [user_ping] (Some probe_options))
     = ((500, ErrorBody (js ''API key not configured. Please set ANTHROPIC_API_KEY in your Vercel environment variables.'') None), [])
   \<and> fst (fst (handler sample_runtime None empty_content_upstream (post [user_ping] (Some probe_options))))
     \<noteq> 200"
  by (simp add: handler_def post_def)

text \<open>
  Claim C3, amended: a request whose sole message is \<open>{role: user, content: ping}\<close> never
  leads to an upstream call; and when it is a POST that carries options, with an API key
  configured, the answer is status 200 with the single choice \<open>pong\<close> of role
  \<open>assistant\<close>.
\<close>

theorem user_ping_answered:
  assumes "body req = Some b"
    and "messages b = Some [\<lparr>role = Some (js ''user''), content = Some (js ''ping'')\<rparr>]"
  shows "snd (handler rt env_key up req) = []
         \<and> (req_method req = js ''POST'' \<and> body_options b = Some opts \<and> env_key = Some k \<and> k \<noteq> [] \<longrightarrow>
              handler rt env_key up req = ((200, Choices (js ''pong'') (js ''assistant'')), []))"
proof -
  have ping: "is_ping [\<lparr>role = Some (js ''user''), content = Some (js ''ping'')\<rparr>]"
    by (simp add: is_ping_def)
  have "snd (handler rt env_key up req) = []"
    using assms ping by (rule ping_never_sent)
  moreover have "handler rt env_key up req = ((200, Choices (js ''pong'') (js ''assistant'')), [])"
    if "req_method req = js ''POST''" and "body_options b = Some opts" and "env_key = Some k" and "k \<noteq> []"
    using that(1) assms(1,2) that(2,3,4) ping by (rule handler_ping)
  ultimately show ?thesis by blast
qed

theorem user_ping_answered_witness:
  "body (post [user_ping] (Some probe_options))
     = Some \<lparr>messages = Some [user_ping], body_options = Some probe_options\<rparr>
   \<and> messages \<lparr>messages = Some [user_ping], body_options = Some probe_options\<rparr>
     = Some [\<lparr>role = Some (js ''user''), content = Some (js ''ping'')\<rparr>]
   \<and> req_method (post [user_ping] (Some probe_options)) = js ''POST''
   \<and> handler sample_runtime (Some (js ''sk-test'')) empty_content_upstream (post [user_ping] (Some probe_options))
     = ((200, Choices (js ''pong'') (js ''assistant'')), [])"
  using user_ping_answered [of "post [user_ping] (Some probe_options)"
      "\<lparr>messages = Some [user_ping], body_options = Some probe_options\<rparr>"
      sample_runtime "Some (js ''sk-test'')" empty_content_upstream probe_options "(js ''sk-test'')"]
  by (simp add: post_def user_ping_def)

text \<open>
  Claim C9, as stated, fails: the options check and the key check come before the ping
  test, so a single entry with content \<open>ping\<close> is answered with status 400 in a request
  without options, and with status 500 where no API key is configured.
\<close>

theorem ping_without_options_counterexample:
  "handler sample_runtime (Some (js ''sk-test'')) empty_content_upstream (post [assistant_ping] None)
     = ((400, ErrorBody (js ''Missing options'') None), [])
   \<and> fst (handler sample_runtime None empty_content_upstream
            (post [\<lparr>role = None, content = Some (js ''ping'')\<rparr>] (Some probe_options)))
     = (500, ErrorBody (js ''API key not configured. Please set ANTHROPIC_API_KEY in your Vercel environment variables.'') None)"
  by (simp add: handler_def post_def)

text \<open>
  Claim C9, amended: the ping test does not look at the role. For every POST request that
  carries options, with an API key configured, whose messages array has exactly one entry
  with content \<open>ping\<close>, whatever that entry's role (\<open>assistant\<close>, or none at all), the
  handler returns the canned \<open>pong\<close> response and calls nothing upstream, although with
  the role \<open>assistant\<close> the user-first validation of \<open>fetchClaudeResponse\<close> would have
  refused the same messages, and with no role its filter would have dropped the entry.
\<close>

theorem ping_ignores_role:
  assumes "req_method req = js ''POST''" and "body req = Some b"
    and "messages b = Some [\<lparr>role = r, content = Some (js ''ping'')\<rparr>]"
    and "body_options b = Some opts" and "env_key = Some k" and "k \<noteq> []"
  shows "handler rt env_key up req = ((200, Choices (js ''pong'') (js ''assistant'')), [])
         \<and> (r = Some (js ''assistant'') \<longrightarrow>
              fetchClaudeResponse rt up [\<lparr>role = r, content = Some (js ''ping'')\<rparr>] opts k
                = (Inl (js ''Conversation must start with a user message''), []))
         \<and> (r = None \<longrightarrow>
              fetchClaudeResponse rt up [\<lparr>role = r, content = Some (js ''ping'')\<rparr>] opts k
                = (Inl (js ''No valid messages to send''), []))"
proof -
  have "is_ping [\<lparr>role = r, content = Some (js ''ping'')\<rparr>]"
    by (simp add: is_ping_def)
  with assms have "handler rt env_key up req = ((200, Choices (js ''pong'') (js ''assistant'')), [])"
    by (rule handler_ping)
  moreover have "fetchClaudeResponse rt up [\<lparr>role = r, content = Some (js ''ping'')\<rparr>] opts k
          = (Inl (js ''Conversation must start with a user message''), [])" if "r = Some (js ''assistant'')"
    using that by (simp add: fetchClaudeResponse_def claudeMessages_def)
  moreover have "fetchClaudeResponse rt up [\<lparr>role = r, content = Some (js ''ping'')\<rparr>] opts k
          = (Inl (js ''No valid messages to send''), [])" if "r = None"
    using that by (simp add: fetchClaudeResponse_def claudeMessages_def)
  ultimately show ?thesis by blast
qed

theorem ping_ignores_role_witness:
  "req_method (post [assistant_ping] (Some probe_options)) = js ''POST''
   \<and> body (post [assistant_ping] (Some probe_options))
       = Some \<lparr>messages = Some [assistant_ping], body_options = Some probe_options\<rparr>
   \<and> messages \<lparr>messages = Some [assistant_ping], body_options = Some probe_options\<rparr>
       = Some [\<lparr>role = Some (js ''assistant''), content = Some (js ''ping'')\<rparr>]
   \<and> handler sample_runtime (Some (js ''sk-test'')) empty_content_upstream
       (post [assistant_ping] (Some probe_options))
       = ((200, Choices (js ''pong'') (js ''assistant'')), [])
   \<and> fetchClaudeResponse sample_runtime empty_content_upstream [assistant_ping] probe_options (js ''sk-test'')
       = (Inl (js ''Conversation must start with a user message''), [])"
  using ping_ignores_role [of "post [assistant_ping] (Some probe_options)"
      "\<lparr>messages = Some [assistant_ping], body_options = Some probe_options\<rparr>"
      "Some (js ''assistant'')" probe_options "Some (js ''sk-test'')" "(js ''sk-test'')"
      sample_runtime empty_content_upstream]
  by (simp add: post_def assistant_ping_def)

section \<open>Rejection of invalid conversations\<close>

text \<open>
  Claim C4, as stated, fails: the single message \<open>{role: assistant, content: ping}\<close>
  leaves, after filtering, a first message whose role is not \<open>user\<close>, yet the ping test
  comes first and the request is answered with status 200.
\<close>

theorem assistant_ping_counterexample:
  "claudeMessages [assistant_ping] = [\<lparr>cm_role = js ''assistant'', cm_content = js ''ping''\<rparr>]
   \<and> handler sample_runtime (Some (js ''sk-test'')) empty_content_upstream
       (post [assistant_ping] (Some probe_options))
       = ((200, Choices (js ''pong'') (js ''assistant'')), [])"
  by (simp add: handler_def post_def assistant_ping_def claudeMessages_def
      is_ping_def pong_def)

text \<open>
  Claim C4, amended: for every POST request that carries a messages array and options,
  with an API key configured, and that is not the single-entry ping probe: if the message
  sequence is empty after filtering, or its first remaining message has a role other than
  \<open>user\<close>, the handler answers with status 500 (error \<open>Server error\<close>, the details
  naming the reason) and nothing is sent upstream.
\<close>

theorem invalid_conversation_rejected:
  assumes "req_method req = js ''POST''" and "body req = Some b" and "messages b = Some msgs"
    and "body_options b = Some opts" and "env_key = Some k" and "k \<noteq> []"
    and "\<not> is_ping msgs"
  shows "(claudeMessages msgs = [] \<longrightarrow>
            handler rt env_key up req
              = ((500, ErrorBody (js ''Server error'') (Some (JStr (js ''No valid messages to send'')))), []))
         \<and> (\<forall>first rest. claudeMessages msgs = first # rest \<and> cm_role first \<noteq> js ''user'' \<longrightarrow>
              handler rt env_key up req
                = ((500, ErrorBody (js ''Server error'')
                      (Some (JStr (js ''Conversation must start with a user message'')))), []))"
  using assms
  by (auto simp add: handler_gated fetch_invalid on_error_no_messages on_error_user_first)

theorem invalid_conversation_rejected_witness:
  "req_method (post [assistant_ping, hello_message] (Some probe_options)) = js ''POST''
   \<and> \<not> is_ping [assistant_ping, hello_message]
   \<and> claudeMessages [assistant_ping, hello_message]
       = [\<lparr>cm_role = js ''assistant'', cm_content = js ''ping''\<rparr>, \<lparr>cm_role = js ''user'', cm_content = js ''hello''\<rparr>]
   \<and> handler sample_runtime (Some (js ''sk-test'')) empty_content_upstream
       (post [assistant_ping, hello_message] (Some probe_options))
       = ((500, ErrorBody (js ''Server error'')
             (Some (JStr (js ''Conversation must start with a user message'')))), [])
   \<and> \<not> is_ping []
   \<and> claudeMessages [] = []
   \<and> handler sample_runtime (Some (js ''sk-test'')) empty_content_upstream (post [] (Some probe_options))
       = ((500, ErrorBody (js ''Server error'') (Some (JStr (js ''No valid messages to send'')))), [])
   \<and> \<not> is_ping [blank_message]
   \<and> claudeMessages [blank_message] = []
   \<and> handler sample_runtime (Some (js ''sk-test'')) empty_content_upstream
       (post [blank_message] (Some probe_options))
       = ((500, ErrorBody (js ''Server error'') (Some (JStr (js ''No valid messages to send'')))), [])"
  using invalid_conversation_rejected [of "post [assistant_ping, hello_message] (Some probe_options)"
      "\<lparr>messages = Some [assistant_ping, hello_message], body_options = Some probe_options\<rparr>"
      "[assistant_ping, hello_message]" probe_options "Some (js ''sk-test'')" "(js ''sk-test'')"
      sample_runtime empty_content_upstream]
    invalid_conversation_rejected [of "post [] (Some probe_options)"
      "\<lparr>messages = Some [], body_options = Some probe_options\<rparr>"
      "[]" probe_options "Some (js ''sk-test'')" "(js ''sk-test'')"
      sample_runtime empty_content_upstream]
    invalid_conversation_rejected [of "post [blank_message] (Some probe_options)"
      "\<lparr>messages = Some [blank_message], body_options = Some probe_options\<rparr>"
      "[blank_message]" probe_options "Some (js ''sk-test'')" "(js ''sk-test'')"
      sample_runtime empty_content_upstream]
  by (simp add: post_def assistant_ping_def hello_message_def blank_message_def claudeMessages_def
      is_ping_def)

text \<open>The filter works on the trimmed text: an entry whose content is white space only, a
  no-break space for one, is dropped, so that a user message behind it becomes the first
  and the conversation is sent.\<close>

lemma blank_entry_dropped:
  "claudeMessages [blank_assistant_message, hello_message]
     = [\<lparr>cm_role = js ''user'', cm_content = js ''hello''\<rparr>]"
  "snd (handler sample_runtime (Some (js ''sk-test'')) empty_content_upstream
          (post [blank_assistant_message, hello_message] (Some probe_options)))
     = [anthropicPayload [\<lparr>cm_role = js ''user'', cm_content = js ''hello''\<rparr>] probe_options]"
  by (simp_all add: handler_def post_def blank_assistant_message_def hello_message_def
      claudeMessages_def is_ping_def fetchClaudeResponse_def empty_content_upstream_def ok_def
      extract_content_def on_error_def starts_with_def)

section \<open>Status codes\<close>

text \<open>
  Claim C5, as stated, fails for the simplified forwarder \<open>api/chat.js\<close>: an upstream
  answer of status 429 is passed to the client with status 429, not 500.
\<close>

theorem forwarder_status_counterexample:
  "chat_handler sample_runtime (Some (js ''sk-test'')) rate_limited
     \<lparr>chat_method = js ''POST'', chat_body = JObj [((js ''message''), JStr (js ''hi''))]\<rparr>
     = (Responded 429 (ErrorBody (js ''Failed to process request'') (Some (JStr (js ''rate limited'')))),
        [JStr (js ''hi'')])"
  by (simp add: chat_handler_def rate_limited_def ok_def)

lemma handler_status: "fst (fst (handler rt env_key up req)) \<in> {200, 400, 405, 500}"
  by (auto simp add: handler_def pong_def on_error_status split: option.splits prod.splits sum.splits)

lemma chat_handler_status:
  assumes "fst (chat_handler rt env_key up' creq) = Responded st bdy"
  shows "st \<in> {200, 400, 405, 500}
         \<or> (\<exists>key msg t j. msg \<in> set (snd (chat_handler rt env_key up' creq))
               \<and> up' key msg = Response st t j \<and> \<not> ok st)"
  using assms
  by (auto simp add: chat_handler_def chat_failed_def Let_def
      split: if_splits option.splits fetch_result.splits sum.splits)

text \<open>
  Claim C5, amended: the status code of the multi-turn normalizer is always one of 200,
  400, 405 and 500, and an upstream failure (the call rejected, or an answer whose status
  is not 2xx) is always surfaced by it as status 500. The simplified forwarder
  \<open>api/chat.js\<close> answers with one of 200, 400, 405 and 500 or else with the status of an
  upstream answer that was not 2xx, which it passes on unchanged.
\<close>

theorem status_codes:
  "fst (fst (handler rt env_key up req)) \<in> {200, 400, 405, 500}
   \<and> (\<forall>p k. p \<in> set (snd (handler rt env_key up req)) \<and> env_key = Some k
         \<and> ((\<exists>m. up k p = Rejected m) \<or> (\<exists>st t j. up k p = Response st t j \<and> \<not> ok st))
         \<longrightarrow> fst (fst (handler rt env_key up req)) = 500)
   \<and> (\<forall>st bdy. fst (chat_handler rt env_key up' creq) = Responded st bdy \<longrightarrow>
         st \<in> {200, 400, 405, 500}
         \<or> (\<exists>key msg t j. msg \<in> set (snd (chat_handler rt env_key up' creq))
               \<and> up' key msg = Response st t j \<and> \<not> ok st))"
proof (intro conjI allI impI)
  show "fst (fst (handler rt env_key up req)) \<in> {200, 400, 405, 500}"
    by (rule handler_status)
next
  fix p k
  assume a: "p \<in> set (snd (handler rt env_key up req)) \<and> env_key = Some k
         \<and> ((\<exists>m. up k p = Rejected m) \<or> (\<exists>st t j. up k p = Response st t j \<and> \<not> ok st))"
  then have sent: "p \<in> set (snd (handler rt env_key up req))" and key: "env_key = Some k"
    and failure: "(\<exists>m. up k p = Rejected m) \<or> (\<exists>st t j. up k p = Response st t j \<and> \<not> ok st)"
    by blast+
  from sent obtain b msgs opts k' where g: "req_method req = js ''POST''" "body req = Some b"
    "messages b = Some msgs" "body_options b = Some opts" "env_key = Some k'" "k' \<noteq> []"
    and ping: "\<not> is_ping msgs"
    and p: "p \<in> set (snd (fetchClaudeResponse rt up msgs opts k'))"
    by (rule handler_sent)
  from key g(5) have k: "k' = k" by simp
  from failure obtain m where "fetchClaudeResponse rt up msgs opts k = (Inl m, [p])"
    using fetch_sent_payload(2) [OF p] unfolding k by auto
  then show "fst (fst (handler rt env_key up req)) = 500"
    using ping by (simp add: handler_gated [OF g] k on_error_status)
next
  fix st bdy
  assume "fst (chat_handler rt env_key up' creq) = Responded st bdy"
  then show "st \<in> {200, 400, 405, 500}
         \<or> (\<exists>key msg t j. msg \<in> set (snd (chat_handler rt env_key up' creq))
               \<and> up' key msg = Response st t j \<and> \<not> ok st)"
    by (rule chat_handler_status)
qed

theorem status_codes_witness:
  "anthropicPayload (claudeMessages [hello_message]) probe_options
     \<in> set (snd (handler sample_runtime (Some (js ''sk-test'')) unreachable_upstream
                  (post [hello_message] (Some probe_options))))
   \<and> unreachable_upstream (js ''sk-test'') (anthropicPayload (claudeMessages [hello_message]) probe_options)
       = Rejected (js ''fetch failed'')
   \<and> fst (fst (handler sample_runtime (Some (js ''sk-test'')) unreachable_upstream
                  (post [hello_message] (Some probe_options)))) = 500
   \<and> fst (chat_handler sample_runtime (Some (js ''sk-test'')) rate_limited
            \<lparr>chat_method = js ''POST'', chat_body = JObj [((js ''message''), JStr (js ''hello''))]\<rparr>)
       = Responded 429 (ErrorBody (js ''Failed to process request'') (Some (JStr (js ''rate limited''))))
   \<and> \<not> ok 429"
  using status_codes [of sample_runtime "Some (js ''sk-test'')" unreachable_upstream
      "post [hello_message] (Some probe_options)" rate_limited
      "\<lparr>chat_method = js ''POST'', chat_body = JObj [((js ''message''), JStr (js ''hello''))]\<rparr>"]
  by (simp add: handler_def post_def hello_message_def claudeMessages_def
      is_ping_def fetchClaudeResponse_def unreachable_upstream_def on_error_def starts_with_def
      chat_handler_def rate_limited_def ok_def)

section \<open>Upstream answers without content\<close>

text \<open>
  Claim C6: whenever the normalizer has called upstream and the answer is a success
  (status 2xx) whose body parses as JSON with an empty list as its \<open>content\<close>, the handler
  returns a response of status 500 with the error \<open>Server error\<close> and the details
  \<open>Empty response from Claude API\<close>; the failure is a value of the handler, not an
  exception that escapes it.
\<close>

theorem empty_content_is_reported:
  assumes "p \<in> set (snd (handler rt env_key up req))" and "env_key = Some k"
    and "up k p = Response status responseText (Some data)" and "ok status"
    and "get_prop data (js ''content'') = Some (JArr [])"
  shows "handler rt env_key up req
           = ((500, ErrorBody (js ''Server error'') (Some (JStr (js ''Empty response from Claude API'')))), [p])"
proof -
  from assms(1) obtain b msgs opts k' where g: "req_method req = js ''POST''" "body req = Some b"
    "messages b = Some msgs" "body_options b = Some opts" "env_key = Some k'" "k' \<noteq> []"
    and ping: "\<not> is_ping msgs"
    and p: "p \<in> set (snd (fetchClaudeResponse rt up msgs opts k'))"
    by (rule handler_sent)
  from assms(2) g(5) have k: "k' = k" by simp
  have "fetchClaudeResponse rt up msgs opts k = (Inl (js ''Empty response from Claude API''), [p])"
    using fetch_sent_payload(2) [OF p] assms(3,4,5) unfolding k by (simp add: extract_empty)
  then show ?thesis
    using ping by (simp add: handler_gated [OF g] k on_error_empty)
qed

theorem empty_content_is_reported_witness:
  "anthropicPayload (claudeMessages [hello_message]) probe_options
     \<in> set (snd (handler sample_runtime (Some (js ''sk-test'')) empty_content_upstream
                  (post [hello_message] (Some probe_options))))
   \<and> empty_content_upstream (js ''sk-test'') (anthropicPayload (claudeMessages [hello_message]) probe_options)
       = Response 200 (js ''{\"content\":[]}'') (Some (JObj [((js ''content''), JArr [])]))
   \<and> ok 200
   \<and> get_prop (JObj [((js ''content''), JArr [])]) (js ''content'') = Some (JArr [])
   \<and> handler sample_runtime (Some (js ''sk-test'')) empty_content_upstream
       (post [hello_message] (Some probe_options))
       = ((500, ErrorBody (js ''Server error'') (Some (JStr (js ''Empty response from Claude API'')))),
          [anthropicPayload (claudeMessages [hello_message]) probe_options])"
  using empty_content_is_reported [of "anthropicPayload (claudeMessages [hello_message]) probe_options"
      sample_runtime "Some (js ''sk-test'')" empty_content_upstream
      "post [hello_message] (Some probe_options)" "(js ''sk-test'')" 200 "(js ''{\"content\":[]}'')"
      "JObj [((js ''content''), JArr [])]"]
  by (simp add: handler_def post_def hello_message_def claudeMessages_def
      is_ping_def fetchClaudeResponse_def empty_content_upstream_def ok_def extract_content_def
      on_error_def starts_with_def)

section \<open>Guards and outcomes of the client send operation\<close>

lemma send_blocked:
  "pendingMessages s \<noteq> [] \<Longrightarrow> sendMessage rt proxy s = (s, [])"
  "quota_messagesLeft s \<le> 0 \<Longrightarrow>
     sendMessage rt proxy s = (s, [])
     \<or> sendMessage rt proxy s = (s, [ShowToast (js ''Message quota exceeded. Please upgrade your plan.'') (js ''error'')])"
  by (simp_all add: sendMessage_def Let_def)

text \<open>
  Claim C7: in every session state in which a send is pending or the quota counter is
  zero or below, \<open>sendMessage\<close> leaves the session state as it was (so the message list
  and its length are unchanged) and issues no request to the proxy.
\<close>

theorem blocked_send_is_noop:
  assumes "pendingMessages s \<noteq> [] \<or> quota_messagesLeft s \<le> 0"
  shows "fst (sendMessage rt proxy s) = s
         \<and> length (chat_messages (fst (sendMessage rt proxy s))) = length (chat_messages s)
         \<and> requests (snd (sendMessage rt proxy s)) = []"
  using assms send_blocked [of s rt proxy] by auto

theorem blocked_send_is_noop_witness:
  "pendingMessages (fresh_state\<lparr>pendingMessages := [(js ''earlier'')]\<rparr>) \<noteq> []
   \<and> fst (sendMessage sample_runtime answering_proxy (fresh_state\<lparr>pendingMessages := [(js ''earlier'')]\<rparr>))
       = fresh_state\<lparr>pendingMessages := [(js ''earlier'')]\<rparr>
   \<and> requests (snd (sendMessage sample_runtime answering_proxy (fresh_state\<lparr>pendingMessages := [(js ''earlier'')]\<rparr>)))
       = []
   \<and> quota_messagesLeft (fresh_state\<lparr>quota_messagesLeft := 0\<rparr>) \<le> 0
   \<and> fst (sendMessage sample_runtime answering_proxy (fresh_state\<lparr>quota_messagesLeft := 0\<rparr>))
       = fresh_state\<lparr>quota_messagesLeft := 0\<rparr>
   \<and> requests (snd (sendMessage sample_runtime answering_proxy (fresh_state\<lparr>quota_messagesLeft := 0\<rparr>)))
       = []"
  using blocked_send_is_noop [of "fresh_state\<lparr>pendingMessages := [(js ''earlier'')]\<rparr>" sample_runtime answering_proxy]
    blocked_send_is_noop [of "fresh_state\<lparr>quota_messagesLeft := 0\<rparr>" sample_runtime answering_proxy]
  by (simp add: fresh_state_def)

lemma send_started:
  assumes "message = trim (inputValue s)" and "message \<noteq> []" and "pendingMessages s = []"
    and "0 < quota_messagesLeft s" and "api_status s = js ''online''"
    and "request = build_request (begin_send s message) message"
  shows "sendMessage rt proxy s =
           (case ai_response rt (proxy request) of
              Inr aiResponse \<Rightarrow>
                (begin_send s message
                   \<lparr>chat_messages := chat_messages (begin_send s message)
                                       @ [\<lparr>turn_type = js ''ai'', turn_content = aiResponse\<rparr>],
                    quota_used := quota_used s + 1,
                    quota_messagesLeft := quota_messagesLeft s - 1,
                    pendingMessages := []\<rparr>,
                 [AddMessage (js ''user'') (JStr message), ShowTypingIndicator, Fetch request,
                  RemoveTypingIndicator, AddMessage (js ''ai'') aiResponse,
                  ExtractCodeFromResponse aiResponse, UpdateQuotaBar, AddToChatHistory message,
                  ShowToast (js ''Response generated successfully!'') (js ''success'')])
            | Inl m \<Rightarrow>
                (begin_send s message
                   \<lparr>chat_messages := chat_messages (begin_send s message)
                                       @ [\<lparr>turn_type = js ''ai'', turn_content = JStr apology\<rparr>],
                    pendingMessages := []\<rparr>,
                 [AddMessage (js ''user'') (JStr message), ShowTypingIndicator, Fetch request,
                  RemoveTypingIndicator, AddMessage (js ''ai'') (JStr apology),
                  ShowToast ((js ''Failed to generate response: '') @ m) (js ''error'')]))"
  using assms
  by (simp add: sendMessage_def Let_def begin_send_def addMessage_def split: sum.splits)

lemma begin_send_fields:
  "chat_messages (begin_send s message)
     = chat_messages s @ [\<lparr>turn_type = js ''user'', turn_content = JStr message\<rparr>]"
  "quota_used (begin_send s message) = quota_used s"
  "quota_messagesLeft (begin_send s message) = quota_messagesLeft s"
  by (simp_all add: begin_send_def addMessage_def Let_def)

lemma ai_response_failures:
  "ai_response rt (Rejected m) = Inl m"
  "\<not> ok st \<Longrightarrow> ai_response rt (Response st t j) = Inl ((js ''API request failed with status '') @ show_nat st)"
  "ok st \<Longrightarrow> ai_response rt (Response st t None) = Inl (syntax_error_message rt t)"
  by (simp_all add: ai_response_def)

text \<open>
  Claim C8: for every send that passes the guards and then fails, because the request to
  the proxy is rejected (a network error), or the proxy answers with a status that is not
  2xx, or the body of its answer is not JSON, the conversation gains the user turn followed
  by the fixed apology turn, the failure is signalled by a toast of kind \<open>error\<close> whose
  text ends in the message of the error, and both quota fields are as before.
\<close>

theorem failed_send:
  assumes "message = trim (inputValue s)" and "message \<noteq> []" and "pendingMessages s = []"
    and "0 < quota_messagesLeft s" and "api_status s = js ''online''"
    and "request = build_request (begin_send s message) message"
    and "proxy request = Rejected m
         \<or> (\<exists>st t j. proxy request = Response st t j \<and> \<not> ok st
               \<and> m = js ''API request failed with status '' @ show_nat st)
         \<or> (\<exists>st t. proxy request = Response st t None \<and> ok st \<and> m = syntax_error_message rt t)"
  shows "chat_messages (fst (sendMessage rt proxy s))
           = chat_messages s @ [\<lparr>turn_type = js ''user'', turn_content = JStr message\<rparr>,
                                \<lparr>turn_type = js ''ai'', turn_content = JStr apology\<rparr>]
         \<and> snd (sendMessage rt proxy s)
           = [AddMessage (js ''user'') (JStr message), ShowTypingIndicator, Fetch request,
              RemoveTypingIndicator, AddMessage (js ''ai'') (JStr apology),
              ShowToast ((js ''Failed to generate response: '') @ m) (js ''error'')]
         \<and> quota_used (fst (sendMessage rt proxy s)) = quota_used s
         \<and> quota_messagesLeft (fst (sendMessage rt proxy s)) = quota_messagesLeft s"
proof -
  from assms(7) have "ai_response rt (proxy request) = Inl m"
    by (auto simp add: ai_response_failures)
  then show ?thesis
    by (simp add: send_started [OF assms(1-6)] begin_send_fields)
qed

theorem failed_send_witness:
  "js ''hi'' = trim (inputValue (fresh_state\<lparr>inputValue := padded_hi\<rparr>))
   \<and> js ''hi'' \<noteq> [] \<and> pendingMessages (fresh_state\<lparr>inputValue := padded_hi\<rparr>) = []
   \<and> 0 < quota_messagesLeft (fresh_state\<lparr>inputValue := padded_hi\<rparr>)
   \<and> api_status (fresh_state\<lparr>inputValue := padded_hi\<rparr>) = js ''online''
   \<and> unavailable_proxy (build_request (begin_send (fresh_state\<lparr>inputValue := padded_hi\<rparr>) (js ''hi'')) (js ''hi''))
       = Response 503 (js ''Service Unavailable'') None
   \<and> \<not> ok 503
   \<and> chat_messages (fst (sendMessage sample_runtime unavailable_proxy (fresh_state\<lparr>inputValue := padded_hi\<rparr>)))
       = [\<lparr>turn_type = js ''user'', turn_content = JStr (js ''hi'')\<rparr>,
          \<lparr>turn_type = js ''ai'', turn_content = JStr apology\<rparr>]
   \<and> last (snd (sendMessage sample_runtime unavailable_proxy (fresh_state\<lparr>inputValue := padded_hi\<rparr>)))
       = ShowToast (js ''Failed to generate response: API request failed with status 503'') (js ''error'')
   \<and> quota_used (fst (sendMessage sample_runtime unavailable_proxy (fresh_state\<lparr>inputValue := padded_hi\<rparr>))) = 0
   \<and> quota_messagesLeft (fst (sendMessage sample_runtime unavailable_proxy (fresh_state\<lparr>inputValue := padded_hi\<rparr>))) = 5"
proof -
  have digits: "show_nat 503 = js ''503''"
    by code_simp
  have ready: "js ''hi'' = trim (inputValue (fresh_state\<lparr>inputValue := padded_hi\<rparr>))"
    by simp
  have failure:
    "unavailable_proxy (build_request (begin_send (fresh_state\<lparr>inputValue := padded_hi\<rparr>) (js ''hi'')) (js ''hi''))
         = Rejected (js ''API request failed with status 503'')
     \<or> (\<exists>st t j. unavailable_proxy (build_request (begin_send (fresh_state\<lparr>inputValue := padded_hi\<rparr>) (js ''hi'')) (js ''hi''))
             = Response st t j \<and> \<not> ok st
           \<and> js ''API request failed with status 503'' = js ''API request failed with status '' @ show_nat st)
     \<or> (\<exists>st t. unavailable_proxy (build_request (begin_send (fresh_state\<lparr>inputValue := padded_hi\<rparr>) (js ''hi'')) (js ''hi''))
             = Response st t None \<and> ok st
           \<and> js ''API request failed with status 503'' = syntax_error_message sample_runtime t)"
    by (simp add: unavailable_proxy_def ok_def digits)
  show ?thesis
    using ready failed_send [of "js ''hi''" "fresh_state\<lparr>inputValue := padded_hi\<rparr>"
        "build_request (begin_send (fresh_state\<lparr>inputValue := padded_hi\<rparr>) (js ''hi'')) (js ''hi'')"
        unavailable_proxy "js ''API request failed with status 503''" sample_runtime,
        OF ready _ _ _ _ refl failure]
    by (simp add: fresh_state_def unavailable_proxy_def ok_def)
qed

text \<open>The first guard works on the trimmed text as well: an input box that holds white
  space only, a no-break space for one, sends nothing.\<close>

lemma blank_input_is_noop:
  "trim (inputValue s) = [] \<Longrightarrow> sendMessage rt proxy s = (s, [])"
  "sendMessage rt proxy (fresh_state\<lparr>inputValue := nbsp\<rparr>) = (fresh_state\<lparr>inputValue := nbsp\<rparr>, [])"
  by (simp_all add: sendMessage_def)

text \<open>
  Claim C10: every run of \<open>sendMessage\<close> preserves the sum of \<open>state.quota.used\<close> and
  \<open>state.quota.messagesLeft\<close>. A run that returns at one of the guards (nothing to send, a
  send pending, the quota used up, the service not online) leaves both fields unchanged,
  and so does a run that passes the guards and fails; a run that passes the guards and
  succeeds adds one to \<open>used\<close> and takes one from \<open>messagesLeft\<close>. The counters are
  integers here; in the program they are IEEE doubles, on which adding and subtracting one
  is exact for integers of magnitude below \<open>2 ^ 53\<close>.
\<close>

theorem quota_sum_preserved:
  "quota_used (fst (sendMessage rt proxy s)) + quota_messagesLeft (fst (sendMessage rt proxy s))
     = quota_used s + quota_messagesLeft s
   \<and> (quota_used (fst (sendMessage rt proxy s)) = quota_used s
        \<and> quota_messagesLeft (fst (sendMessage rt proxy s)) = quota_messagesLeft s
      \<or> quota_used (fst (sendMessage rt proxy s)) = quota_used s + 1
        \<and> quota_messagesLeft (fst (sendMessage rt proxy s)) = quota_messagesLeft s - 1)
   \<and> (trim (inputValue s) = [] \<or> pendingMessages s \<noteq> [] \<or> quota_messagesLeft s \<le> 0
        \<or> api_status s \<noteq> js ''online''
      \<longrightarrow> fst (sendMessage rt proxy s) = s
          \<and> quota_used (fst (sendMessage rt proxy s)) = quota_used s
          \<and> quota_messagesLeft (fst (sendMessage rt proxy s)) = quota_messagesLeft s)
   \<and> (trim (inputValue s) \<noteq> [] \<and> pendingMessages s = [] \<and> 0 < quota_messagesLeft s
        \<and> api_status s = js ''online''
        \<and> (\<exists>m. ai_response rt (proxy (build_request (begin_send s (trim (inputValue s)))
                                        (trim (inputValue s)))) = Inl m)
      \<longrightarrow> quota_used (fst (sendMessage rt proxy s)) = quota_used s
          \<and> quota_messagesLeft (fst (sendMessage rt proxy s)) = quota_messagesLeft s)
   \<and> (trim (inputValue s) \<noteq> [] \<and> pendingMessages s = [] \<and> 0 < quota_messagesLeft s
        \<and> api_status s = js ''online''
        \<and> (\<exists>a. ai_response rt (proxy (build_request (begin_send s (trim (inputValue s)))
                                        (trim (inputValue s)))) = Inr a)
      \<longrightarrow> quota_used (fst (sendMessage rt proxy s)) = quota_used s + 1
          \<and> quota_messagesLeft (fst (sendMessage rt proxy s)) = quota_messagesLeft s - 1)"
  by (auto simp add: sendMessage_def Let_def begin_send_def addMessage_def split: sum.splits)

theorem quota_sum_preserved_witness:
  "quota_messagesLeft (fresh_state\<lparr>quota_used := 5, quota_messagesLeft := 0\<rparr>) \<le> 0
   \<and> quota_used (fst (sendMessage sample_runtime answering_proxy
                        (fresh_state\<lparr>quota_used := 5, quota_messagesLeft := 0\<rparr>))) = 5
   \<and> quota_messagesLeft (fst (sendMessage sample_runtime answering_proxy
                                (fresh_state\<lparr>quota_used := 5, quota_messagesLeft := 0\<rparr>))) = 0
   \<and> trim (inputValue fresh_state) \<noteq> [] \<and> pendingMessages fresh_state = []
   \<and> 0 < quota_messagesLeft fresh_state \<and> api_status fresh_state = js ''online''
   \<and> ai_response sample_runtime
       (unavailable_proxy (build_request (begin_send fresh_state (trim (inputValue fresh_state)))
                             (trim (inputValue fresh_state))))
       = Inl (js ''API request failed with status 503'')
   \<and> quota_used (fst (sendMessage sample_runtime unavailable_proxy fresh_state)) = 0
   \<and> quota_messagesLeft (fst (sendMessage sample_runtime unavailable_proxy fresh_state)) = 5
   \<and> ai_response sample_runtime
       (answering_proxy (build_request (begin_send fresh_state (trim (inputValue fresh_state)))
                           (trim (inputValue fresh_state)))) = Inr (JStr (js ''hello''))
   \<and> quota_used (fst (sendMessage sample_runtime answering_proxy fresh_state)) = 1
   \<and> quota_messagesLeft (fst (sendMessage sample_runtime answering_proxy fresh_state)) = 4"
proof -
  have digits: "show_nat 503 = js ''503''"
    by code_simp
  show ?thesis
    using quota_sum_preserved [of sample_runtime answering_proxy
        "fresh_state\<lparr>quota_used := 5, quota_messagesLeft := 0\<rparr>"]
      quota_sum_preserved [of sample_runtime unavailable_proxy fresh_state]
      quota_sum_preserved [of sample_runtime answering_proxy fresh_state]
    by (simp add: fresh_state_def answering_proxy_def unavailable_proxy_def ai_response_def ok_def
        digits)
qed

end
